theory Spec2Isabelle
  imports Main "HOL-Library.AList"
begin

section \<open>Values, descriptors and schema types of vot/utilities/attributes.py\<close>

text \<open>
  The module \<^verbatim>\<open>vot/utilities/attributes.py\<close> is embedded as follows.

  \<^item> \<open>val\<close> is the nested data the module handles: \<open>None\<close>, the \<open>Undefined()\<close> singleton,
    scalars, lists, dicts (association lists in insertion order, with string keys), the
    \<open>ReadonlyMapping\<close> view, callables and classes (with their \<open>resname\<close> attribute, if set),
    and instances of schema types (the class and the instance's own attribute dict).
    A float is kept as mantissa and binary exponent; no operation of this theory looks inside.
  \<^item> \<open>attr\<close> is a descriptor object, one constructor per class of the module, holding the
    instance attributes that class assigns. \<open>Integer\<close> and \<open>Float\<close> are \<open>Number\<close> with the
    conversion fixed. The attributes \<open>_contains\<close>, \<open>_separator\<close>, \<open>_container\<close> and
    \<open>_resolver\<close> are optional, because \<open>List\<close>, \<open>Map\<close> and \<open>Object\<close> call
    \<open>super().__init__\<close> before assigning them: \<open>None\<close> is the attribute not yet assigned,
    and reading it raises \<open>AttributeError\<close>. A resolver is referred to by name and applied
    through the environment.
  \<^item> \<open>cls\<close> is a schema type: its name and its \<open>_declared_attributes\<close> dict. Schema types
    are taken to use \<open>Attributee.__init__\<close> and \<open>Attributee.dump\<close> as they are.
  \<^item> \<open>error\<close> is the exception raised. \<open>MissingArguments\<close> and \<open>UnsupportedArguments\<close> are
    the two \<open>AttributeError\<close>s of \<open>Attributee.__init__\<close>; the source joins a set of names
    into the message, in no fixed order, so the error carries the set.
  \<^item> \<open>env\<close> holds what the module imports from \<open>vot.utilities\<close> (\<open>to_number\<close>,
    \<open>to_string\<close>, \<open>to_logical\<close>, \<open>import_class\<close>, \<open>class_fullname\<close>, \<open>class_string\<close>),
    none of which is among the sources, and the resolver functions that \<open>Object\<close> fields
    are given. All of them are parameters of the embedding.

  Where the types leave an input of the source out: a base class given to \<open>Nested\<close> or
  \<open>Include\<close> is a schema type (the source raises "Illegal base class" for any other), the
  container of a \<open>Map\<close> is \<open>dict\<close>, a separator is a string, and a member of a class body
  that is a descriptor class rather than a descriptor instance is not represented.
\<close>

datatype conversion = int_conversion | float_conversion

datatype container = dict_container

datatype val =
    VNone
  | VUndefined
  | VBool bool
  | VInt int
  | VFloat int int
  | VStr string
  | VList "val list"
  | VDict "(string \<times> val) list"
  | VReadonlyMapping "(string \<times> val) list"
  | VCallable string bool "string option"
  | VClass cls "string option"
  | VInstance cls "(string \<times> val) list"
and attr =
    Attribute val
  | Nested cls bool val
  | Include cls bool
  | Number conversion val val val
  | Boolean val
  | String val
  | List "attr option" "string option" val
  | Map "attr option" "container option" val
  | Object "string option" val
  | Callable val
and cls =
    Class string "(string \<times> attr) list"

datatype error =
    AttributeException string
  | MissingArguments "string set"
  | UnsupportedArguments "string set"
  | AttributeError string
  | AssertionError
  | TypeError
  | ValueError
  | ExternalError string

type_synonym kwargs = "(string \<times> val) list"

record env =
  to_number :: "val \<Rightarrow> val \<Rightarrow> val \<Rightarrow> conversion \<Rightarrow> error + val"
  to_string :: "val \<Rightarrow> error + val"
  to_logical :: "val \<Rightarrow> error + val"
  import_class :: "val \<Rightarrow> error + val"
  class_fullname :: "val \<Rightarrow> string"
  class_string :: "val \<Rightarrow> string"
  resolver :: "string \<Rightarrow> val \<Rightarrow> kwargs option \<Rightarrow> kwargs \<Rightarrow> error + val"

fun declared_attributes :: "cls \<Rightarrow> (string \<times> attr) list" where
  "declared_attributes (Class name flds) = flds"

definition is_undefined :: "val \<Rightarrow> bool" where
  "is_undefined a = (if a = VNone then False else a = VUndefined)"

fun is_Include :: "attr \<Rightarrow> bool" where
  "is_Include (Include acls req) = True"
| "is_Include a = False"

fun default_of :: "attr \<Rightarrow> val" where
  "default_of (Attribute d) = d"
| "default_of (Nested acls req d) = d"
| "default_of (Include acls req) = VDict []"
| "default_of (Number conv vmin vmax d) = d"
| "default_of (Boolean d) = d"
| "default_of (String d) = d"
| "default_of (List contains sep d) = d"
| "default_of (Map contains cont d) = d"
| "default_of (Object res d) = d"
| "default_of (Callable d) = d"

fun required :: "attr \<Rightarrow> bool" where
  "required (Nested acls req d) = (is_undefined d \<and> req)"
| "required (Include acls req) = (is_undefined VUndefined \<and> req)"
| "required a = is_undefined (default_of a)"


subsection \<open>Python containers\<close>

text \<open>
  \<open>AList.update\<close> is item assignment on a dict: an existing key keeps its place, a new key
  goes last. \<open>dict_update\<close> is \<open>dict.update\<close>, \<open>dict_of\<close> is \<open>dict(pairs)\<close>, and
  \<open>dict_with_key\<close> is \<open>dict(key=v, **context)\<close>, which raises \<open>TypeError\<close> when the
  context already has that key. \<open>str_split\<close> is \<open>str.split\<close> with a string separator
  (\<open>ValueError\<close> on the empty separator). \<open>iterate\<close> gives the items a \<open>for\<close> loop sees,
  and \<open>None\<close> for a value that is not \<open>Iterable\<close>; \<open>mapping_items\<close> gives the items of a
  \<open>Mapping\<close>.
\<close>

definition dict_update :: "('k \<times> 'v) list \<Rightarrow> ('k \<times> 'v) list \<Rightarrow> ('k \<times> 'v) list" where
  "dict_update d other = fold (\<lambda>(k, v). AList.update k v) other d"


definition dict_with_key :: "string \<Rightarrow> val \<Rightarrow> kwargs \<Rightarrow> error + kwargs" where
  "dict_with_key k v context =
     (if k \<in> set (map fst context) then Inl TypeError else Inr ((k, v) # context))"

function split_from :: "string \<Rightarrow> string \<Rightarrow> string \<Rightarrow> string list" where
  "split_from sep cur s =
     (if s = [] then [cur]
      else if sep \<noteq> [] \<and> take (length sep) s = sep
        then cur # split_from sep [] (drop (length sep) s)
      else split_from sep (cur @ [hd s]) (tl s))"
  by pat_completeness auto
termination
  by (relation "measure (\<lambda>(sep, cur, s). length s)") auto

definition str_split :: "string \<Rightarrow> string \<Rightarrow> error + string list" where
  "str_split s sep = (if sep = [] then Inl ValueError else Inr (split_from sep [] s))"

fun iterate :: "val \<Rightarrow> val list option" where
  "iterate (VList xs) = Some xs"
| "iterate (VStr s) = Some (map (\<lambda>c. VStr [c]) s)"
| "iterate (VDict kv) = Some (map (\<lambda>(k, v). VStr k) kv)"
| "iterate (VReadonlyMapping kv) = Some (map (\<lambda>(k, v). VStr k) kv)"
| "iterate v = None"

fun mapping_items :: "val \<Rightarrow> kwargs option" where
  "mapping_items (VDict kv) = Some kv"
| "mapping_items (VReadonlyMapping kv) = Some kv"
| "mapping_items v = None"

fun callable :: "val \<Rightarrow> bool" where
  "callable (VCallable name isclass resname) = True"
| "callable (VClass c resname) = True"
| "callable v = False"

subsection \<open>Include.filter\<close>

text \<open>
  \<open>Include_filter acls kw\<close> is \<open>Include.filter(**kw)\<close> of an \<open>Include\<close> whose \<open>_acls\<close> is
  \<open>acls\<close>; \<open>filter_fields\<close> is its loop over the declared attributes, with the dict
  \<open>filtered\<close> built so far. \<open>acls_of\<close> reads \<open>_acls\<close>; it is applied to \<open>Nested\<close> and
  \<open>Include\<close> descriptors only, and the empty class stands for a descriptor that has no
  such attribute.
\<close>

fun Include_filter :: "cls \<Rightarrow> kwargs \<Rightarrow> kwargs"
and filter_fields :: "(string \<times> attr) list \<Rightarrow> kwargs \<Rightarrow> kwargs \<Rightarrow> kwargs" where
  "Include_filter (Class name flds) kw = filter_fields flds kw []"
| "filter_fields [] kw filtered = filtered"
| "filter_fields ((aname, Include acls req) # rest) kw filtered =
     filter_fields rest kw (dict_update filtered (Include_filter acls kw))"
| "filter_fields ((aname, afield) # rest) kw filtered =
     filter_fields rest kw
       (case map_of kw aname of
          Some v \<Rightarrow> AList.update aname v filtered
        | None \<Rightarrow> filtered)"

fun acls_of :: "attr \<Rightarrow> cls" where
  "acls_of (Include acls req) = acls"
| "acls_of (Nested acls req d) = acls"
| "acls_of a = Class [] []"

subsection \<open>Coercion and construction\<close>

text \<open>
  \<open>coerce env a value context\<close> is \<open>a.coerce(value, context)\<close>, by the class of \<open>a\<close>.
  \<open>List_sequence\<close> is the first half of \<open>List.coerce\<close> (splitting a string, taking a dict's
  values, rejecting what is not iterable); \<open>coerce_items\<close> is its list comprehension and
  \<open>coerce_entries\<close> the loop of \<open>Map.coerce\<close>. \<open>init_fields\<close> is the loop of
  \<open>Attributee.__init__\<close> over the declared attributes: its state is the instance's attribute
  dict and the sets \<open>unconsumed\<close> and \<open>unspecified\<close>; the context it passes is
  \<open>{"parent": self}\<close>, with \<open>self\<close> as built so far. \<open>init_check\<close> is the two checks after
  the loop.
\<close>

definition List_sequence :: "string option \<Rightarrow> val \<Rightarrow> error + val list" where
  "List_sequence separator value =
     (case (case value of
              VStr s \<Rightarrow>
                (case separator of
                   None \<Rightarrow> Inl (AttributeError ''_separator'')
                 | Some sep \<Rightarrow>
                     (case str_split s sep of
                        Inl e \<Rightarrow> Inl e
                      | Inr parts \<Rightarrow> Inr (VList (map VStr parts))))
            | _ \<Rightarrow> Inr value) of
        Inl e \<Rightarrow> Inl e
      | Inr value1 \<Rightarrow>
          (case iterate (case value1 of VDict kv \<Rightarrow> VList (map snd kv) | _ \<Rightarrow> value1) of
             None \<Rightarrow> Inl (AttributeException ''Unable to value convert to list'')
           | Some xs \<Rightarrow> Inr xs))"

type_synonym init_state = "kwargs \<times> string set \<times> string set"

definition init_check :: "cls \<Rightarrow> init_state \<Rightarrow> error + val" where
  "init_check c st =
     (case st of (d, unconsumed, unspecified) \<Rightarrow>
        if unspecified \<noteq> {} then Inl (MissingArguments unspecified)
        else if unconsumed \<noteq> {} then Inl (UnsupportedArguments unconsumed)
        else Inr (VInstance c d))"

function (sequential) coerce :: "env \<Rightarrow> attr \<Rightarrow> val \<Rightarrow> kwargs option \<Rightarrow> error + val"
and coerce_items :: "env \<Rightarrow> attr option \<Rightarrow> kwargs \<Rightarrow> int \<Rightarrow> val list \<Rightarrow> error + val list"
and coerce_entries :: "env \<Rightarrow> attr option \<Rightarrow> kwargs \<Rightarrow> kwargs \<Rightarrow> kwargs \<Rightarrow> error + kwargs"
and init_fields :: "env \<Rightarrow> cls \<Rightarrow> kwargs \<Rightarrow> (string \<times> attr) list \<Rightarrow> init_state \<Rightarrow> error + init_state"
where
  "coerce env (Attribute d) value context = Inr value"
| "coerce env (Nested (Class name flds) req d) value context =
     (if value = VNone then Inr VNone
      else if is_undefined value then Inr value
      else case mapping_items value of
             None \<Rightarrow> Inl AssertionError
           | Some kw \<Rightarrow>
               (case init_fields env (Class name flds) kw flds
                       ([], set (map fst kw), set (map fst flds)) of
                  Inl e \<Rightarrow> Inl e
                | Inr st \<Rightarrow> init_check (Class name flds) st))"
| "coerce env (Include (Class name flds) req) value context =
     (if value = VNone then Inr VNone
      else if is_undefined value then Inr value
      else case mapping_items value of
             None \<Rightarrow> Inl AssertionError
           | Some kw \<Rightarrow>
               (case init_fields env (Class name flds) kw flds
                       ([], set (map fst kw), set (map fst flds)) of
                  Inl e \<Rightarrow> Inl e
                | Inr st \<Rightarrow> init_check (Class name flds) st))"
| "coerce env (Number conv vmin vmax d) value context = to_number env value vmax vmin conv"
| "coerce env (Boolean d) value context = to_logical env value"
| "coerce env (String d) value context = to_string env value"
| "coerce env (List contains separator d) value context =
     (case List_sequence separator value of
        Inl e \<Rightarrow> Inl e
      | Inr xs \<Rightarrow>
          (case coerce_items env contains (case context of None \<Rightarrow> [] | Some c \<Rightarrow> c) 0 xs of
             Inl e \<Rightarrow> Inl e
           | Inr ys \<Rightarrow> Inr (VList ys)))"
| "coerce env (Map contains cont d) value context =
     (case mapping_items value of
        None \<Rightarrow> Inl (AttributeException ''Unable to value convert to dict'')
      | Some kv \<Rightarrow>
          (case cont of
             None \<Rightarrow> Inl (AttributeError ''_container'')
           | Some dict_container \<Rightarrow>
               (case coerce_entries env contains (case context of None \<Rightarrow> [] | Some c \<Rightarrow> c) kv [] of
                  Inl e \<Rightarrow> Inl e
                | Inr container \<Rightarrow> Inr (VReadonlyMapping container))))"
| "coerce env (Object res d) value context =
     (case value of
        VDict kv \<Rightarrow>
          (let class_name = (case map_of kv ''type'' of None \<Rightarrow> VNone | Some t \<Rightarrow> t) in
           case res of
             None \<Rightarrow> Inl (AttributeError ''_resolver'')
           | Some r \<Rightarrow> resolver env r class_name context (filter (\<lambda>(k, v). k \<noteq> ''type'') kv))
      | _ \<Rightarrow> Inl AssertionError)"
| "coerce env (Callable d) value context =
     (if callable value then Inr value
      else case value of
             VStr s \<Rightarrow>
               (case import_class env value of
                  Inl e \<Rightarrow> Inl e
                | Inr (VCallable name isclass resname) \<Rightarrow> Inr (VCallable name isclass (Some s))
                | Inr (VClass c resname) \<Rightarrow> Inr (VClass c (Some s))
                | Inr other \<Rightarrow> Inl AssertionError)
           | _ \<Rightarrow> Inl AssertionError)"
| "coerce_items env contains context i [] = Inr []"
| "coerce_items env None context i (x # xs) = Inl (AttributeError ''_contains'')"
| "coerce_items env (Some c) context i (x # xs) =
     (case dict_with_key ''key'' (VInt i) context of
        Inl e \<Rightarrow> Inl e
      | Inr context' \<Rightarrow>
          (case coerce env c x (Some context') of
             Inl e \<Rightarrow> Inl e
           | Inr y \<Rightarrow>
               (case coerce_items env (Some c) context (i + 1) xs of
                  Inl e \<Rightarrow> Inl e
                | Inr ys \<Rightarrow> Inr (y # ys))))"
| "coerce_entries env contains context [] container = Inr container"
| "coerce_entries env None context ((name, data) # rest) container = Inl (AttributeError ''_contains'')"
| "coerce_entries env (Some c) context ((name, data) # rest) container =
     (case dict_with_key ''key'' (VStr name) context of
        Inl e \<Rightarrow> Inl e
      | Inr context' \<Rightarrow>
          (case coerce env c data (Some context') of
             Inl e \<Rightarrow> Inl e
           | Inr y \<Rightarrow> coerce_entries env (Some c) context rest (AList.update name y container)))"
| "init_fields env c kw [] st = Inr st"
| "init_fields env c kw ((aname, afield) # rest) (d, unconsumed, unspecified) =
     (if is_Include afield then
        (let iargs = Include_filter (acls_of afield) kw in
         case coerce env afield (VDict iargs) (Some [(''parent'', VInstance c d)]) of
           Inl e \<Rightarrow> Inl e
         | Inr v \<Rightarrow>
             init_fields env c kw rest
               (AList.update aname v d,
                unconsumed - set (map fst iargs) - {aname},
                unspecified - set (map fst iargs) - {aname}))
      else
        (case (case map_of kw aname of
                 None \<Rightarrow> if \<not> required afield then Some (default_of afield) else None
               | Some x \<Rightarrow> Some x) of
           None \<Rightarrow> init_fields env c kw rest (d, unconsumed, unspecified)
         | Some avalue \<Rightarrow>
             (case coerce env afield avalue (Some [(''parent'', VInstance c d)]) of
                Inl e \<Rightarrow> Inl e
              | Inr v \<Rightarrow>
                  init_fields env c kw rest
                    (AList.update aname v d, unconsumed - {aname}, unspecified - {aname}))))"

  by pat_completeness auto

termination
  by (relation "inv_image (less_than <*lex*> less_than)
        (\<lambda>x. case x of
           Inl (Inl (env, a, v, c)) \<Rightarrow> (size a, 0)
         | Inl (Inr (env, copt, ctx, i, xs)) \<Rightarrow> (size_option size copt, length xs)
         | Inr (Inl (env, copt, ctx, kv, cont)) \<Rightarrow> (size_option size copt, length kv)
         | Inr (Inr (env, c, kw, flds, st)) \<Rightarrow> (size_list (size_prod (\<lambda>n. 0) size) flds, 0))")
     auto


subsection \<open>Serialization\<close>

text \<open>
  \<open>dump env a value\<close> is \<open>a.dump(value)\<close>, and \<open>Attributee_dump env value\<close> is the method
  call \<open>value.dump()\<close>: \<open>Attributee.dump\<close> on an instance, \<open>AttributeError\<close> on a value
  that has no such method. \<open>dump_items\<close> is the list comprehension of \<open>List.dump\<close>
  and \<open>dump_entries\<close> the dict comprehension of \<open>Map.dump\<close>, with the dict built so
  far, so that the keys keep the order of the value's items. \<open>dump_fields\<close> is the loop
  of \<open>Attributee.dump\<close>, with the dict \<open>serialized\<close> built so far. The recursion follows the value, not the descriptor
  (\<open>Nested.dump\<close> dispatches on the class of the value it is given), so termination is
  by the size of the value; \<open>list_bound\<close> is the measure of a list of items.
\<close>

definition getattr :: "kwargs \<Rightarrow> string \<Rightarrow> val \<Rightarrow> val" where
  "getattr d name dflt = (case map_of d name of Some v \<Rightarrow> v | None \<Rightarrow> dflt)"

fun list_bound :: "val list \<Rightarrow> nat" where
  "list_bound [] = 0"
| "list_bound (x # xs) = max (size x) (list_bound xs)"

lemma list_bound_le_size_list: "list_bound xs \<le> size_list size xs"
  by (induction xs) auto

lemma list_bound_snd_le: "list_bound (map snd kv) \<le> size_list (size_prod (\<lambda>n. 0) size) kv"
  by (induction kv) auto

lemma list_bound_keys: "list_bound (map (\<lambda>(k, v). VStr k) kv) = 0"
  by (induction kv) auto

lemma list_bound_chars: "list_bound (map (\<lambda>c. VStr [c]) s) = 0"
  by (induction s) auto

lemma iterate_bound: "iterate v = Some xs \<Longrightarrow> list_bound xs \<le> size v"
  using list_bound_le_size_list [of xs]
  by (cases v) (auto simp: list_bound_keys list_bound_chars)

lemma mapping_items_bound: "mapping_items v = Some kv \<Longrightarrow> list_bound (map snd kv) \<le> size v"
  using list_bound_snd_le [of kv] by (cases v) auto

lemma map_of_size: "map_of d n = Some v \<Longrightarrow> size v < size_list (size_prod (\<lambda>n. 0) size) d"
  by (induction d) (auto split: if_splits)

lemma default_of_size: "size (default_of a) \<le> size a"
  by (cases a) auto

lemma getattr_size:
  "size (getattr d n (default_of a)) < size_list (size_prod (\<lambda>n. 0) size) d + size a + 1"
  using map_of_size [of d n] default_of_size [of a]
  by (cases "map_of d n") (auto simp: getattr_def)

function (sequential) dump :: "env \<Rightarrow> attr \<Rightarrow> val \<Rightarrow> error + val"
and dump_items :: "env \<Rightarrow> attr option \<Rightarrow> val list \<Rightarrow> error + val list"
and dump_entries :: "env \<Rightarrow> attr option \<Rightarrow> kwargs \<Rightarrow> kwargs \<Rightarrow> error + kwargs"
and dump_fields :: "env \<Rightarrow> kwargs \<Rightarrow> (string \<times> attr) list \<Rightarrow> kwargs \<Rightarrow> error + kwargs"
and Attributee_dump :: "env \<Rightarrow> val \<Rightarrow> error + val"
where
  "dump env (Attribute d) value = Inr value"
| "dump env (Nested acls req d) value =
     (if value = VNone then Inr VNone else Attributee_dump env value)"
| "dump env (Include acls req) value =
     (if value = VNone then Inr VNone else Attributee_dump env value)"
| "dump env (Number conv vmin vmax d) value = Inr value"
| "dump env (Boolean d) value = Inr value"
| "dump env (String d) value = Inr value"
| "dump env (List contains separator d) value =
     (case iterate value of
        None \<Rightarrow> Inl TypeError
      | Some xs \<Rightarrow>
          (case dump_items env contains xs of
             Inl e \<Rightarrow> Inl e
           | Inr ys \<Rightarrow> Inr (VList ys)))"
| "dump env (Map contains cont d) value =
     (case mapping_items value of
        None \<Rightarrow> Inl (AttributeError ''items'')
      | Some kv \<Rightarrow>
          (case dump_entries env contains kv [] of
             Inl e \<Rightarrow> Inl e
           | Inr out \<Rightarrow> Inr (VDict out)))"
| "dump env (Object res d) value =
     (case Attributee_dump env value of
        Inl e \<Rightarrow> Inl e
      | Inr (VDict data) \<Rightarrow>
          Inr (VDict (AList.update ''type'' (VStr (class_fullname env value)) data))
      | Inr other \<Rightarrow> Inl TypeError)"
| "dump env (Callable d) value =
     (case value of
        VCallable name isclass (Some resname) \<Rightarrow> Inr (VStr resname)
      | VClass c (Some resname) \<Rightarrow> Inr (VStr resname)
      | VCallable name True None \<Rightarrow> Inr (VStr (class_string env value))
      | VClass c None \<Rightarrow> Inr (VStr (class_string env value))
      | _ \<Rightarrow> Inr (VStr (class_fullname env value)))"
| "dump_items env contains [] = Inr []"
| "dump_items env None (x # xs) = Inl (AttributeError ''_contains'')"
| "dump_items env (Some c) (x # xs) =
     (case dump env c x of
        Inl e \<Rightarrow> Inl e
      | Inr y \<Rightarrow>
          (case dump_items env (Some c) xs of
             Inl e \<Rightarrow> Inl e
           | Inr ys \<Rightarrow> Inr (y # ys)))"
| "dump_entries env contains [] out = Inr out"
| "dump_entries env None ((k, v) # rest) out = Inl (AttributeError ''_contains'')"
| "dump_entries env (Some c) ((k, v) # rest) out =
     (case dump env c v of
        Inl e \<Rightarrow> Inl e
      | Inr y \<Rightarrow> dump_entries env (Some c) rest (AList.update k y out))"
| "dump_fields env attrs [] serialized = Inr serialized"
| "dump_fields env attrs ((aname, afield) # rest) serialized =
     (if is_Include afield then
        (case dump env afield (getattr attrs aname (VDict [])) of
           Inl e \<Rightarrow> Inl e
         | Inr (VDict sub) \<Rightarrow> dump_fields env attrs rest (dict_update serialized sub)
         | Inr other \<Rightarrow> Inl TypeError)
      else
        (case dump env afield (getattr attrs aname (default_of afield)) of
           Inl e \<Rightarrow> Inl e
         | Inr v \<Rightarrow> dump_fields env attrs rest (AList.update aname v serialized)))"
| "Attributee_dump env (VInstance (Class name flds) attrs) =
     (case dump_fields env attrs flds [] of
        Inl e \<Rightarrow> Inl e
      | Inr serialized \<Rightarrow> Inr (VDict serialized))"
| "Attributee_dump env (VClass c resname) = Inl TypeError"
| "Attributee_dump env value = Inl (AttributeError ''dump'')"
  by pat_completeness auto

termination
proof (relation "inv_image (less_than <*lex*> less_than <*lex*> less_than)
        (\<lambda>x. case x of
           Inl (Inl (env, a, v)) \<Rightarrow> (size v, size a, 0)
         | Inl (Inr (env, copt, xs)) \<Rightarrow> (list_bound xs, size_option size copt, length xs)
         | Inr (Inl (env, copt, kv, out)) \<Rightarrow> (list_bound (map snd kv), size_option size copt, length kv)
         | Inr (Inr (Inl (env, attrs, flds, ser))) \<Rightarrow>
             (size_list (size_prod (\<lambda>n. 0) size) attrs + size_list (size_prod (\<lambda>n. 0) size) flds, 0, 0)
         | Inr (Inr (Inr (env, v))) \<Rightarrow> (size v, 0, 0))", goal_cases)
  case (4 env contains separator d "value" xs)
  then show ?case using iterate_bound [of "value" xs] by auto
next
  case (5 env contains cont d "value" kv)
  then show ?case using mapping_items_bound [of "value" kv] by auto
next
  case (11 env attrs aname afield rest serialized)
  then show ?case using getattr_size [of attrs aname afield] by (cases afield) auto
next
  case (13 env attrs aname afield rest serialized)
  then show ?case using getattr_size [of attrs aname afield] by auto
qed auto


subsection \<open>Attributee: construction and attribute assignment\<close>

text \<open>
  \<open>Attributee_init env c d kw\<close> is \<open>Attributee.__init__(self, **kw)\<close> on an instance of
  class \<open>c\<close> whose attribute dict is \<open>d\<close> when the call starts (a subclass may have
  attached attributes of its own before calling \<open>super().__init__\<close>); \<open>construct\<close> is
  the call \<open>c(**kw)\<close> on a fresh instance. \<open>Attributee_setattr c d key value\<close> is
  \<open>self.key = value\<close> on an instance of class \<open>c\<close> with attribute dict \<open>d\<close>: it
  returns the exception raised, if any, and the attribute dict afterwards.
\<close>

definition Attributee_init :: "env \<Rightarrow> cls \<Rightarrow> kwargs \<Rightarrow> kwargs \<Rightarrow> error + val" where
  "Attributee_init env c d kw =
     (case init_fields env c kw (declared_attributes c)
             (d, set (map fst kw), set (map fst (declared_attributes c))) of
        Inl e \<Rightarrow> Inl e
      | Inr st \<Rightarrow> init_check c st)"

definition construct :: "env \<Rightarrow> cls \<Rightarrow> kwargs \<Rightarrow> error + val" where
  "construct env c kw = Attributee_init env c [] kw"

definition Attributee_setattr :: "cls \<Rightarrow> kwargs \<Rightarrow> string \<Rightarrow> val \<Rightarrow> error option \<times> kwargs" where
  "Attributee_setattr c d key value =
     (if key \<in> set (map fst (declared_attributes c))
      then (Some (AttributeException (''Attribute '' @ key @ '' is readonly'')), d)
      else (None, AList.update key value d))"

definition default_object_resolver :: "env \<Rightarrow> val \<Rightarrow> kwargs option \<Rightarrow> kwargs \<Rightarrow> error + val" where
  "default_object_resolver env typename context kw =
     (case import_class env typename of
        Inl e \<Rightarrow> Inl e
      | Inr (VClass clstype resname) \<Rightarrow> construct env clstype kw
      | Inr (VCallable name True resname) \<Rightarrow> Inl AssertionError
      | Inr other \<Rightarrow> Inl TypeError)"

subsection \<open>Descriptor definition\<close>

text \<open>
  \<open>super_init env self dflt\<close> is \<open>Attribute.__init__(self, default=dflt)\<close>: it returns the
  value stored as \<open>_default\<close>. \<open>self\<close> is the descriptor as far as the subclass has
  initialised it when it makes that call (no \<open>coerce\<close> method reads \<open>_default\<close>, so the
  slot is left \<open>Undefined\<close> there). A descriptor defined without a default gets
  \<open>VUndefined\<close>.
\<close>

definition super_init :: "env \<Rightarrow> attr \<Rightarrow> val \<Rightarrow> error + val" where
  "super_init env self dflt =
     (if is_undefined dflt then Inr dflt else coerce env self dflt (Some []))"

definition Attribute_init :: "env \<Rightarrow> val \<Rightarrow> error + attr" where
  "Attribute_init env dflt =
     (case super_init env (Attribute VUndefined) dflt of
        Inl e \<Rightarrow> Inl e
      | Inr d \<Rightarrow> Inr (Attribute d))"

definition Nested_init :: "env \<Rightarrow> cls \<Rightarrow> val \<Rightarrow> error + attr" where
  "Nested_init env acls dflt =
     (let req = list_ex (\<lambda>(aa, afield). required afield) (declared_attributes acls) in
      case super_init env (Nested acls req VUndefined) dflt of
        Inl e \<Rightarrow> Inl e
      | Inr d \<Rightarrow> Inr (Nested acls req d))"

definition Include_init :: "env \<Rightarrow> cls \<Rightarrow> error + attr" where
  "Include_init env acls =
     (let req = list_ex (\<lambda>(aa, afield). required afield) (declared_attributes acls) in
      case super_init env (Include acls req) VUndefined of
        Inl e \<Rightarrow> Inl e
      | Inr d \<Rightarrow> Inr (Include acls req))"

definition Number_init :: "env \<Rightarrow> conversion \<Rightarrow> val \<Rightarrow> val \<Rightarrow> val \<Rightarrow> error + attr" where
  "Number_init env conv val_min val_max dflt =
     (case super_init env (Number conv val_min val_max VUndefined) dflt of
        Inl e \<Rightarrow> Inl e
      | Inr d \<Rightarrow> Inr (Number conv val_min val_max d))"

definition Integer_init :: "env \<Rightarrow> val \<Rightarrow> val \<Rightarrow> val \<Rightarrow> error + attr" where
  "Integer_init env val_min val_max dflt = Number_init env int_conversion val_min val_max dflt"

definition Float_init :: "env \<Rightarrow> val \<Rightarrow> val \<Rightarrow> val \<Rightarrow> error + attr" where
  "Float_init env val_min val_max dflt = Number_init env float_conversion val_min val_max dflt"

definition Boolean_init :: "env \<Rightarrow> val \<Rightarrow> error + attr" where
  "Boolean_init env dflt =
     (case super_init env (Boolean VUndefined) dflt of
        Inl e \<Rightarrow> Inl e
      | Inr d \<Rightarrow> Inr (Boolean d))"

definition String_init :: "env \<Rightarrow> val \<Rightarrow> error + attr" where
  "String_init env dflt =
     (case super_init env (String VUndefined) dflt of
        Inl e \<Rightarrow> Inl e
      | Inr d \<Rightarrow> Inr (String d))"

definition List_init :: "env \<Rightarrow> attr \<Rightarrow> string \<Rightarrow> val \<Rightarrow> error + attr" where
  "List_init env contains separator dflt =
     (case super_init env (List None None VUndefined) dflt of
        Inl e \<Rightarrow> Inl e
      | Inr d \<Rightarrow> Inr (List (Some contains) (Some separator) d))"

definition Map_init :: "env \<Rightarrow> attr \<Rightarrow> container \<Rightarrow> val \<Rightarrow> error + attr" where
  "Map_init env contains cont dflt =
     (case super_init env (Map None None VUndefined) dflt of
        Inl e \<Rightarrow> Inl e
      | Inr d \<Rightarrow> Inr (Map (Some contains) (Some cont) d))"

definition Object_init :: "env \<Rightarrow> string \<Rightarrow> val \<Rightarrow> error + attr" where
  "Object_init env res dflt =
     (case super_init env (Object None VUndefined) dflt of
        Inl e \<Rightarrow> Inl e
      | Inr d \<Rightarrow> Inr (Object (Some res) d))"

definition Callable_init :: "env \<Rightarrow> val \<Rightarrow> error + attr" where
  "Callable_init env dflt =
     (case super_init env (Callable VUndefined) dflt of
        Inl e \<Rightarrow> Inl e
      | Inr d \<Rightarrow> Inr (Callable d))"

subsection \<open>AttributeeMeta: collecting the fields of a schema type\<close>









subsection \<open>A sample environment\<close>

text \<open>
  Modelled from the spec: \<open>vot.utilities.to_number\<close> is not among the sources. The spec
  says that it applies the conversion (here the integer parse: an optional sign and decimal
  digits) and then rejects a value outside \<open>[min, max]\<close>, the bounds inclusive and either
  of them possibly unset. Only the integer conversion is modelled.
\<close>

definition digit_of :: "char \<Rightarrow> nat option" where
  "digit_of c = map_of (zip ''0123456789'' [0, 1, 2, 3, 4, 5, 6, 7, 8, 9]) c"

fun digits_value :: "string \<Rightarrow> nat \<Rightarrow> nat option" where
  "digits_value [] acc = Some acc"
| "digits_value (c # cs) acc =
     (case digit_of c of None \<Rightarrow> None | Some k \<Rightarrow> digits_value cs (10 * acc + k))"

definition int_of_string :: "string \<Rightarrow> int option" where
  "int_of_string s =
     (case s of
        [] \<Rightarrow> None
      | c # cs \<Rightarrow>
          if c = CHR ''-'' then (if cs = [] then None else map_option (\<lambda>n. - int n) (digits_value cs 0))
          else if c = CHR ''+'' then (if cs = [] then None else map_option int (digits_value cs 0))
          else map_option int (digits_value s 0))"

definition to_integer :: "val \<Rightarrow> val \<Rightarrow> val \<Rightarrow> error + val" where
  "to_integer value max_n min_n =
     (case (case value of VInt i \<Rightarrow> Some i | VStr s \<Rightarrow> int_of_string s | _ \<Rightarrow> None) of
        None \<Rightarrow> Inl (ExternalError ''not a number'')
      | Some n \<Rightarrow>
          if (case min_n of VInt lo \<Rightarrow> n < lo | _ \<Rightarrow> False)
             \<or> (case max_n of VInt hi \<Rightarrow> hi < n | _ \<Rightarrow> False)
          then Inl (ExternalError ''out of range'')
          else Inr (VInt n))"

text \<open>
  The environment used where a statement is evaluated on a concrete input: the integer
  conversion above, a \<open>class_fullname\<close> that gives the name of an instance's class, and
  no registry and no resolver.
\<close>

definition sample_env :: env where
  "sample_env =
     \<lparr> to_number = (\<lambda>value max_n min_n conv.
          case conv of
            int_conversion \<Rightarrow> to_integer value max_n min_n
          | float_conversion \<Rightarrow> Inl (ExternalError ''float'')),
       to_string = (\<lambda>value. case value of VStr s \<Rightarrow> Inr (VStr s) | _ \<Rightarrow> Inl (ExternalError ''string'')),
       to_logical = (\<lambda>value. case value of VBool b \<Rightarrow> Inr (VBool b) | _ \<Rightarrow> Inl (ExternalError ''logical'')),
       import_class = (\<lambda>name. Inl (ExternalError ''not found'')),
       class_fullname = (\<lambda>value. case value of VInstance (Class name flds) d \<Rightarrow> name | _ \<Rightarrow> []),
       class_string = (\<lambda>value. case value of VClass (Class name flds) r \<Rightarrow> name | _ \<Rightarrow> []),
       resolver = (\<lambda>r typename context kw. Inl (ExternalError ''no resolver'')) \<rparr>"

subsection \<open>Sample schema types\<close>

text \<open>
  The schema types on which statements are evaluated: \<open>Point\<close> with a required \<open>x\<close> and
  an optional \<open>y\<close>, \<open>Origin\<close> with defaults for both, and \<open>Circle\<close> with one required
  integer field, together with a resolver that knows \<open>Circle\<close> by its name.
\<close>

definition Point :: cls where
  "Point = Class ''Point''
     [(''x'', Number int_conversion VNone VNone VUndefined),
      (''y'', Number int_conversion VNone VNone (VInt 0))]"

definition Origin :: cls where
  "Origin = Class ''Origin''
     [(''x'', Number int_conversion VNone VNone (VInt 0)),
      (''y'', Number int_conversion VNone VNone (VInt 0))]"

definition Circle :: cls where
  "Circle = Class ''Circle'' [(''radius'', Number int_conversion VNone VNone VUndefined)]"

definition shape_resolver :: "val \<Rightarrow> kwargs option \<Rightarrow> kwargs \<Rightarrow> error + val" where
  "shape_resolver typename context kw =
     (if typename = VStr ''Circle'' then construct sample_env Circle kw
      else Inl (ExternalError ''not found''))"

definition shape_env :: env where
  "shape_env = sample_env \<lparr> resolver := (\<lambda>r. shape_resolver) \<rparr>"













subsection \<open>What a construction leaves unsatisfied and unclaimed\<close>




subsection \<open>What a dump of a constructed record holds\<close>

text \<open>
  \<open>flat_fields c\<close> is the field list of \<open>c\<close> as a caller sees it: the declared fields in
  order, each \<open>Include\<close> replaced in place by the flat fields of the type it includes.
  \<open>wf_cls c\<close> says that \<open>_declared_attributes\<close> of \<open>c\<close>, and of every type it includes,
  has each name once, as a dict has. \<open>raw_value kw aname afield\<close> is the value the
  construction coerces for a field: the one supplied under its name, otherwise the
  field's default.
\<close>

fun flat_fields :: "cls \<Rightarrow> (string \<times> attr) list"
and flat_list :: "(string \<times> attr) list \<Rightarrow> (string \<times> attr) list" where
  "flat_fields (Class name flds) = flat_list flds"
| "flat_list [] = []"
| "flat_list ((aname, Include acls req) # rest) = flat_fields acls @ flat_list rest"
| "flat_list ((aname, afield) # rest) = (aname, afield) # flat_list rest"







section \<open>Construction: missing and unsupported arguments\<close>














section \<open>Object fields\<close>

lemma filter_type_absent:
  "map_of kv ''type'' = None \<Longrightarrow> filter (\<lambda>(k, v). k \<noteq> ''type'') kv = kv"
  by (induction kv) (auto split: if_splits)

lemma filter_type_keys: "''type'' \<notin> set (map fst (filter (\<lambda>(k, v). k \<noteq> ''type'') kv))"
  by (induction kv) auto

text \<open>
  Claim C6. \<open>Object.coerce\<close> on a dict with an entry under \<open>"type"\<close> is one application of
  the resolver, to the value of that entry, the context, and the other entries as keyword
  arguments, none of them under \<open>"type"\<close>. \<open>Object.dump\<close> of the instance that comes back
  is the instance's own dump with the entry \<open>"type"\<close> set to \<open>class_fullname\<close> of the
  instance; the other entries are the instance's.
\<close>

theorem Object_discriminator:
  "map_of kv ''type'' = Some t \<Longrightarrow>
   coerce env (Object (Some r) d) (VDict kv) context
     = resolver env r t context (filter (\<lambda>(k, v). k \<noteq> ''type'') kv)
   \<and> ''type'' \<notin> set (map fst (filter (\<lambda>(k, v). k \<noteq> ''type'') kv))
   \<and> (\<forall>inst data.
         coerce env (Object (Some r) d) (VDict kv) context = Inr inst
         \<longrightarrow> Attributee_dump env inst = Inr (VDict data)
         \<longrightarrow> dump env (Object (Some r) d) inst
               = Inr (VDict (AList.update ''type'' (VStr (class_fullname env inst)) data))
             \<and> map_of (AList.update ''type'' (VStr (class_fullname env inst)) data) ''type''
               = Some (VStr (class_fullname env inst))
             \<and> (\<forall>k. k \<noteq> ''type'' \<longrightarrow>
                   map_of (AList.update ''type'' (VStr (class_fullname env inst)) data) k = map_of data k))"
  using filter_type_keys [of kv] by (simp add: update_conv')

theorem Object_discriminator_witness:
  "map_of [(''type'', VStr ''Circle''), (''radius'', VStr ''5'')] ''type'' = Some (VStr ''Circle'')
   \<and> coerce shape_env (Object (Some ''shapes'') VUndefined)
        (VDict [(''type'', VStr ''Circle''), (''radius'', VStr ''5'')]) (Some [(''key'', VStr ''a'')])
       = resolver shape_env ''shapes'' (VStr ''Circle'') (Some [(''key'', VStr ''a'')]) [(''radius'', VStr ''5'')]
   \<and> coerce shape_env (Object (Some ''shapes'') VUndefined)
        (VDict [(''type'', VStr ''Circle''), (''radius'', VStr ''5'')]) (Some [(''key'', VStr ''a'')])
       = Inr (VInstance Circle [(''radius'', VInt 5)])
   \<and> Attributee_dump shape_env (VInstance Circle [(''radius'', VInt 5)]) = Inr (VDict [(''radius'', VInt 5)])
   \<and> dump shape_env (Object (Some ''shapes'') VUndefined) (VInstance Circle [(''radius'', VInt 5)])
       = Inr (VDict [(''radius'', VInt 5), (''type'', VStr ''Circle'')])"
  using Object_discriminator [of "[(''type'', VStr ''Circle''), (''radius'', VStr ''5'')]" "VStr ''Circle''"
          shape_env "''shapes''" VUndefined "Some [(''key'', VStr ''a'')]"]
  by (simp add: shape_env_def shape_resolver_def sample_env_def Circle_def construct_def
        Attributee_init_def init_check_def getattr_def to_integer_def int_of_string_def digit_of_def)

text \<open>
  Claim C9. On a dict with no entry under \<open>"type"\<close>, \<open>Object.coerce\<close> raises nothing of its
  own: its result is the resolver's, applied to \<open>None\<close>, the context, and all the entries
  of the dict.
\<close>

theorem Object_coerce_without_type:
  "map_of kv ''type'' = None \<Longrightarrow>
   coerce env (Object (Some r) d) (VDict kv) context = resolver env r VNone context kv"
  by (simp add: filter_type_absent)

theorem Object_coerce_without_type_witness:
  "map_of [(''radius'', VStr ''5'')] ''type'' = None
   \<and> coerce shape_env (Object (Some ''shapes'') VUndefined) (VDict [(''radius'', VStr ''5'')]) None
       = resolver shape_env ''shapes'' VNone None [(''radius'', VStr ''5'')]
   \<and> resolver shape_env ''shapes'' VNone None [(''radius'', VStr ''5'')] = Inl (ExternalError ''not found'')"
  using Object_coerce_without_type [of "[(''radius'', VStr ''5'')]" shape_env "''shapes''" VUndefined None]
  by (simp add: shape_env_def shape_resolver_def)

section \<open>Nested fields\<close>

text \<open>
  Claim C10. \<open>Nested.coerce\<close> returns \<open>None\<close> on \<open>None\<close>, whatever the base type, and
  \<open>Nested.dump\<close> returns \<open>None\<close> on \<open>None\<close>. So a schema type with a nested field,
  constructed with \<open>None\<close> for it, holds \<open>None\<close> there and dumps \<open>None\<close> under the field's
  name.
\<close>

theorem Nested_None_end_to_end:
  "coerce env (Nested acls req d) VNone context = Inr VNone
   \<and> dump env (Nested acls req d) VNone = Inr VNone
   \<and> construct env (Class name [(n, Nested acls req d)]) [(n, VNone)]
       = Inr (VInstance (Class name [(n, Nested acls req d)]) [(n, VNone)])
   \<and> Attributee_dump env (VInstance (Class name [(n, Nested acls req d)]) [(n, VNone)])
       = Inr (VDict [(n, VNone)])"
  by (cases acls) (simp add: construct_def Attributee_init_def init_check_def getattr_def)

lemma required_Nested_init:
  assumes "Nested_init env acls dflt = Inr a"
  shows "required a = (is_undefined dflt \<and> list_ex (\<lambda>(aa, afield). required afield) (declared_attributes acls))"
proof (cases "is_undefined dflt")
  case True
  with assms show ?thesis
    by (auto simp: Nested_init_def super_init_def Let_def)
next
  case False
  obtain name flds where acls: "acls = Class name flds" by (cases acls)
  from False assms obtain d where a: "a = Nested acls (list_ex (\<lambda>(aa, afield). required afield) (declared_attributes acls)) d"
    and d: "coerce env (Nested acls (list_ex (\<lambda>(aa, afield). required afield) (declared_attributes acls)) VUndefined) dflt (Some []) = Inr d"
    by (auto simp: Nested_init_def super_init_def Let_def split: sum.splits)
  from d False have "\<not> is_undefined d"
    by (auto simp: acls init_check_def is_undefined_def split: if_splits option.splits sum.splits prod.splits)
  with a False show ?thesis by simp
qed

lemma has_default_not_required:
  "\<not> is_Include f \<Longrightarrow> \<not> is_undefined (default_of f) \<Longrightarrow> \<not> required f"
  by (cases f) auto

text \<open>
  Claim C8. A descriptor defined by \<open>Nested(acls, default=dflt)\<close> is required only if
  \<open>acls\<close> declares a field that is itself required; so when every declared field of
  \<open>acls\<close> has a default, the descriptor is not required.
\<close>

theorem Nested_required_only_if:
  assumes "Nested_init env acls dflt = Inr a"
  shows "(required a \<longrightarrow> (\<exists>(n, f) \<in> set (declared_attributes acls). required f))
       \<and> ((\<forall>(n, f) \<in> set (declared_attributes acls). \<not> is_Include f \<and> \<not> is_undefined (default_of f))
            \<longrightarrow> \<not> required a)"
  using required_Nested_init [OF assms] has_default_not_required
  by (auto simp: list_ex_iff)

theorem Nested_required_only_if_witness:
  "Nested_init sample_env Point VUndefined = Inr (Nested Point True VUndefined)
   \<and> required (Nested Point True VUndefined)
   \<and> (\<exists>(n, f) \<in> set (declared_attributes Point). required f)
   \<and> Nested_init sample_env Origin VUndefined = Inr (Nested Origin False VUndefined)
   \<and> list_all (\<lambda>(n, f). \<not> is_Include f \<and> \<not> is_undefined (default_of f)) (declared_attributes Origin)
   \<and> \<not> required (Nested Origin False VUndefined)"
proof -
  have p: "Nested_init sample_env Point VUndefined = Inr (Nested Point True VUndefined)"
    by (simp add: Nested_init_def super_init_def Point_def is_undefined_def)
  have o: "Nested_init sample_env Origin VUndefined = Inr (Nested Origin False VUndefined)"
    by (simp add: Nested_init_def super_init_def Origin_def is_undefined_def)
  have od: "\<forall>(n, f) \<in> set (declared_attributes Origin). \<not> is_Include f \<and> \<not> is_undefined (default_of f)"
    by (simp add: Origin_def is_undefined_def)
  have rp: "required (Nested Point True VUndefined)"
    by (simp add: is_undefined_def)
  have ol: "list_all (\<lambda>(n, f). \<not> is_Include f \<and> \<not> is_undefined (default_of f)) (declared_attributes Origin)"
    using od by (simp add: list_all_iff)
  from Nested_required_only_if [OF p] rp Nested_required_only_if [OF o] od ol p o
  show ?thesis by blast
qed

section \<open>Assignment after construction\<close>

text \<open>
  Claim C3. Assigning a declared field name on an instance raises the read-only
  \<open>AttributeException\<close> and leaves the instance as it was. Assigning any other name
  raises nothing and binds that name, all other attributes staying as they were.
\<close>

theorem setattr_readonly:
  "(key \<in> set (map fst (declared_attributes c)) \<longrightarrow>
      Attributee_setattr c d key value
        = (Some (AttributeException (''Attribute '' @ key @ '' is readonly'')), d))
   \<and> (key \<notin> set (map fst (declared_attributes c)) \<longrightarrow>
      Attributee_setattr c d key value = (None, AList.update key value d)
      \<and> map_of (AList.update key value d) key = Some value
      \<and> (\<forall>k. k \<noteq> key \<longrightarrow> map_of (AList.update key value d) k = map_of d k))"
  by (simp add: Attributee_setattr_def update_conv')

theorem setattr_readonly_witness:
  "''x'' \<in> set (map fst (declared_attributes Point))
   \<and> Attributee_setattr Point [(''x'', VInt 5), (''y'', VInt 0)] ''x'' (VInt 7)
       = (Some (AttributeException ''Attribute x is readonly''), [(''x'', VInt 5), (''y'', VInt 0)])
   \<and> ''note'' \<notin> set (map fst (declared_attributes Point))
   \<and> Attributee_setattr Point [(''x'', VInt 5), (''y'', VInt 0)] ''note'' (VInt 7)
       = (None, [(''x'', VInt 5), (''y'', VInt 0), (''note'', VInt 7)])"
  using setattr_readonly [of "''x''" Point "[(''x'', VInt 5), (''y'', VInt 0)]" "VInt 7"]
        setattr_readonly [of "''note''" Point "[(''x'', VInt 5), (''y'', VInt 0)]" "VInt 7"]
  by (simp add: Point_def)

section \<open>Defaults at descriptor definition\<close>

text \<open>
  Claim C5 fails on the code. \<open>List\<close>, \<open>Map\<close> and \<open>Object\<close> call \<open>super().__init__\<close>
  before they assign \<open>_contains\<close>, \<open>_separator\<close>, \<open>_container\<close> and \<open>_resolver\<close>, and
  \<open>Attribute.__init__\<close> coerces the default through the very methods that read those
  attributes. So defining a \<open>Map\<close> or an \<open>Object\<close> with any mapping as default raises
  \<open>AttributeError\<close>, and so does defining a \<open>List\<close> with a non-empty list or a string as
  default.
\<close>

theorem container_default_fails:
  "Map_init env contains cont (VDict kv) = Inl (AttributeError ''_container'')
   \<and> Map_init env contains cont (VReadonlyMapping kv) = Inl (AttributeError ''_container'')
   \<and> List_init env contains separator (VList (x # xs)) = Inl (AttributeError ''_contains'')
   \<and> List_init env contains separator (VStr s) = Inl (AttributeError ''_separator'')
   \<and> Object_init env res (VDict kv) = Inl (AttributeError ''_resolver'')"
  by (simp add: Map_init_def List_init_def Object_init_def super_init_def is_undefined_def
        List_sequence_def)

text \<open>
  \<open>Number\<close> assigns its attributes first and calls \<open>super().__init__\<close> last: there the
  default is coerced as the claim says. A \<open>List\<close> gets away with the empty list only.
\<close>

lemma Number_init_default:
  "\<not> is_undefined dflt \<Longrightarrow>
   Number_init env conv val_min val_max dflt =
     (case to_number env dflt val_max val_min conv of
        Inl e \<Rightarrow> Inl e
      | Inr d \<Rightarrow> Inr (Number conv val_min val_max d))"
  by (simp add: Number_init_def super_init_def)

lemma List_init_empty_default:
  "List_init env contains separator (VList []) = Inr (List (Some contains) (Some separator) (VList []))"
  by (simp add: List_init_def super_init_def is_undefined_def List_sequence_def)

section \<open>Merging the fields of a schema type\<close>























section \<open>List fields\<close>

lemma coerce_items_success:
  assumes "''key'' \<notin> set (map fst ctx)"
  shows "coerce_items env (Some c) ctx i xs = Inr ys \<longleftrightarrow>
           length ys = length xs
           \<and> (\<forall>j < length xs. coerce env c (xs ! j) (Some ((''key'', VInt (i + int j)) # ctx)) = Inr (ys ! j))"
proof (induction xs arbitrary: i ys)
  case Nil
  then show ?case by auto
next
  case (Cons x xs)
  show ?case
  proof (cases "coerce env c x (Some ((''key'', VInt i) # ctx))")
    case (Inl e)
    have "\<not> (\<forall>j < length (x # xs). coerce env c ((x # xs) ! j) (Some ((''key'', VInt (i + int j)) # ctx)) = Inr (ys ! j))"
      using Inl by (auto intro!: exI [of _ 0])
    with Inl assms show ?thesis by (simp add: dict_with_key_def)
  next
    case (Inr y)
    show ?thesis
    proof (cases ys)
      case Nil
      with Inr assms show ?thesis by (simp add: dict_with_key_def split: sum.splits)
    next
      case ysC: (Cons y' ys')
      have step: "(\<forall>j < length (x # xs). coerce env c ((x # xs) ! j) (Some ((''key'', VInt (i + int j)) # ctx)) = Inr ((y' # ys') ! j))
            \<longleftrightarrow> (y = y' \<and> (\<forall>j < length xs. coerce env c (xs ! j) (Some ((''key'', VInt (i + 1 + int j)) # ctx)) = Inr (ys' ! j)))"
        (is "?A \<longleftrightarrow> ?B")
      proof
        assume a: ?A
        from a [rule_format, of 0] Inr have "y = y'" by simp
        moreover have "coerce env c (xs ! j) (Some ((''key'', VInt (i + 1 + int j)) # ctx)) = Inr (ys' ! j)"
          if "j < length xs" for j
          using a [rule_format, of "Suc j"] that by (simp add: algebra_simps)
        ultimately show ?B by blast
      next
        assume b: ?B
        show ?A
        proof (intro allI impI)
          fix j assume "j < length (x # xs)"
          with b Inr show "coerce env c ((x # xs) ! j) (Some ((''key'', VInt (i + int j)) # ctx)) = Inr ((y' # ys') ! j)"
            by (cases j) (auto simp: algebra_simps)
        qed
      qed
      have lhs: "coerce_items env (Some c) ctx i (x # xs) = Inr (y' # ys')
                 \<longleftrightarrow> y = y' \<and> coerce_items env (Some c) ctx (i + 1) xs = Inr ys'"
        using Inr assms by (auto simp: dict_with_key_def split: sum.splits)
      have "coerce_items env (Some c) ctx i (x # xs) = Inr (y' # ys')
            \<longleftrightarrow> length ys' = length xs
                \<and> (y = y' \<and> (\<forall>j < length xs. coerce env c (xs ! j) (Some ((''key'', VInt (i + 1 + int j)) # ctx)) = Inr (ys' ! j)))"
        unfolding lhs Cons.IH [of "i + 1" ys'] by blast
      also have "\<dots> \<longleftrightarrow> length (y' # ys') = length (x # xs)
                \<and> (\<forall>j < length (x # xs). coerce env c ((x # xs) ! j) (Some ((''key'', VInt (i + int j)) # ctx)) = Inr ((y' # ys') ! j))"
        unfolding step by simp
      finally show ?thesis unfolding ysC .
    qed
  qed
qed

lemma coerce_items_key_clash:
  "''key'' \<in> set (map fst ctx) \<Longrightarrow> coerce_items env (Some c) ctx i (x # xs) = Inl TypeError"
  by (simp add: dict_with_key_def)

text \<open>
  Under a context that has no entry \<open>"key"\<close> yet (the context of a field is
  \<open>{"parent": self}\<close> in \<open>Attributee.__init__\<close> and \<open>{}\<close> for a default), and with a
  \<open>to_number\<close> that parses the three numerals, a \<open>List\<close> of integers with the
  separator \<open>","\<close> coerces \<open>"1,2,3"\<close> to \<open>[1, 2, 3]\<close>. A list coerces to a list of
  the same length exactly when every item coerces under the context extended by its
  position under \<open>"key"\<close>, and then holds the coerced items in order. A string is
  coerced as the list of its parts, a dict as the list of its values, and a value that
  is not iterable raises the \<open>AttributeException\<close>.
\<close>

lemma List_coerce_shapes:
  assumes "''key'' \<notin> set (map fst (case context of None \<Rightarrow> [] | Some ctx \<Rightarrow> ctx))"
  shows "(to_number env (VStr ''1'') VNone VNone int_conversion = Inr (VInt 1)
          \<and> to_number env (VStr ''2'') VNone VNone int_conversion = Inr (VInt 2)
          \<and> to_number env (VStr ''3'') VNone VNone int_conversion = Inr (VInt 3)
          \<longrightarrow> coerce env (List (Some (Number int_conversion VNone VNone dn)) (Some '','') d)
                (VStr ''1,2,3'') context = Inr (VList [VInt 1, VInt 2, VInt 3]))
       \<and> (\<forall>ys. coerce env (List (Some c) (Some sep) d) (VList xs) context = Inr (VList ys)
             \<longleftrightarrow> length ys = length xs
                 \<and> (\<forall>j < length xs.
                       coerce env c (xs ! j)
                         (Some ((''key'', VInt (int j)) # (case context of None \<Rightarrow> [] | Some ctx \<Rightarrow> ctx)))
                       = Inr (ys ! j)))
       \<and> (sep \<noteq> [] \<longrightarrow>
             coerce env (List (Some c) (Some sep) d) (VStr s) context
             = coerce env (List (Some c) (Some sep) d) (VList (map VStr (split_from sep [] s))) context)
       \<and> coerce env (List (Some c) (Some sep) d) (VDict kv) context
           = coerce env (List (Some c) (Some sep) d) (VList (map snd kv)) context
       \<and> (iterate v = None \<longrightarrow>
             coerce env (List (Some c) (Some sep) d) v context
             = Inl (AttributeException ''Unable to value convert to list''))"
proof -
  let ?ctx = "case context of None \<Rightarrow> [] | Some ctx \<Rightarrow> ctx"
  have 2: "coerce env (List (Some c) (Some sep) d) (VList xs) context = Inr (VList ys)
             \<longleftrightarrow> length ys = length xs
                 \<and> (\<forall>j < length xs. coerce env c (xs ! j) (Some ((''key'', VInt (int j)) # ?ctx)) = Inr (ys ! j))"
    for ys
    using coerce_items_success [OF assms, of env c 0 xs ys]
    by (auto simp: List_sequence_def split: sum.splits)
  have 3: "coerce env (List (Some c) (Some sep) d) (VStr s) context
             = coerce env (List (Some c) (Some sep) d) (VList (map VStr (split_from sep [] s))) context"
    if "sep \<noteq> []"
    using that by (simp add: List_sequence_def str_split_def)
  have 4: "coerce env (List (Some c) (Some sep) d) (VDict kv) context
           = coerce env (List (Some c) (Some sep) d) (VList (map snd kv)) context"
    by (simp add: List_sequence_def)
  have 5: "coerce env (List (Some c) (Some sep) d) v context
             = Inl (AttributeException ''Unable to value convert to list'')"
    if "iterate v = None"
    using that by (cases v) (simp_all add: List_sequence_def)
  have split: "split_from '','' [] ''1,2,3'' = [''1'', ''2'', ''3'']"
    by (simp add: split_from.simps)
  have 1: "coerce env (List (Some (Number int_conversion VNone VNone dn)) (Some '','') d)
                (VStr ''1,2,3'') context = Inr (VList [VInt 1, VInt 2, VInt 3])"
    if "to_number env (VStr ''1'') VNone VNone int_conversion = Inr (VInt 1)"
       "to_number env (VStr ''2'') VNone VNone int_conversion = Inr (VInt 2)"
       "to_number env (VStr ''3'') VNone VNone int_conversion = Inr (VInt 3)"
    using that assms
    by (simp add: List_sequence_def str_split_def split dict_with_key_def)
  from 1 2 3 4 5 show ?thesis by blast
qed

lemma List_coerce_shapes_at_field:
  "''key'' \<notin> set (map fst (case Some [(''parent'', VInstance Point [])] of None \<Rightarrow> [] | Some ctx \<Rightarrow> ctx))
   \<and> to_number sample_env (VStr ''1'') VNone VNone int_conversion = Inr (VInt 1)
   \<and> to_number sample_env (VStr ''2'') VNone VNone int_conversion = Inr (VInt 2)
   \<and> to_number sample_env (VStr ''3'') VNone VNone int_conversion = Inr (VInt 3)
   \<and> coerce sample_env (List (Some (Number int_conversion VNone VNone VUndefined)) (Some '','') VUndefined)
        (VStr ''1,2,3'') (Some [(''parent'', VInstance Point [])])
       = Inr (VList [VInt 1, VInt 2, VInt 3])
   \<and> coerce sample_env (List (Some (Number int_conversion VNone VNone VUndefined)) (Some '','') VUndefined)
        (VDict [(''a'', VInt 4), (''b'', VStr ''5'')]) (Some [(''parent'', VInstance Point [])])
       = coerce sample_env (List (Some (Number int_conversion VNone VNone VUndefined)) (Some '','') VUndefined)
        (VList [VInt 4, VStr ''5'']) (Some [(''parent'', VInstance Point [])])
   \<and> iterate (VInt 7) = None
   \<and> coerce sample_env (List (Some (Number int_conversion VNone VNone VUndefined)) (Some '','') VUndefined)
        (VInt 7) (Some [(''parent'', VInstance Point [])])
       = Inl (AttributeException ''Unable to value convert to list'')"
proof -
  have k: "''key'' \<notin> set (map fst (case Some [(''parent'', VInstance Point [])] of None \<Rightarrow> [] | Some ctx \<Rightarrow> ctx))"
    by simp
  have n: "to_number sample_env (VStr ''1'') VNone VNone int_conversion = Inr (VInt 1)
           \<and> to_number sample_env (VStr ''2'') VNone VNone int_conversion = Inr (VInt 2)
           \<and> to_number sample_env (VStr ''3'') VNone VNone int_conversion = Inr (VInt 3)"
    by (simp add: sample_env_def to_integer_def int_of_string_def digit_of_def)
  have i: "iterate (VInt 7) = None" by simp
  from List_coerce_shapes [OF k, of sample_env VUndefined VUndefined
         "Number int_conversion VNone VNone VUndefined" "'',''" "[]"
         "[]" "[(''a'', VInt 4), (''b'', VStr ''5'')]" "VInt 7"] k n i
  show ?thesis by simp
qed

lemma List_inside_Map_key_clash:
  "coerce env (Map (Some (List (Some c) (Some sep) d)) (Some dict_container) d')
     (VDict ((k, VList (x # xs)) # rest)) context = Inl TypeError"
  by (simp add: dict_with_key_def List_sequence_def)

lemma List_inside_List_key_clash:
  "coerce env (List (Some (List (Some c) (Some sep) d)) (Some sep') d')
     (VList (VList (x # xs) # rest)) context = Inl TypeError"
  by (simp add: dict_with_key_def List_sequence_def)

text \<open>
  Claim C7 fails on the code. \<open>List.coerce\<close> builds the context of an item as
  \<open>dict(key=i, **context)\<close>, which raises \<open>TypeError\<close> when the context already has an
  entry \<open>"key"\<close>. That is the context a \<open>List\<close> gets as the element descriptor of a
  \<open>Map\<close> (whose \<open>coerce\<close> passes \<open>dict(key=name, **context)\<close> on) or of another \<open>List\<close>.
  So a \<open>Map\<close> of integer lists, as a field of a schema type, does not coerce
  \<open>{a: "1,2,3"}\<close>, nor \<open>{a: [1, 2, 3]}\<close>, nor \<open>{a: {p: 1}}\<close>, and a \<open>List\<close> of integer
  lists does not coerce \<open>["1,2,3"]\<close>: in each the inner \<open>List\<close> is given a string, a
  sequence or a mapping and raises \<open>TypeError\<close> instead of accepting it.
\<close>

theorem List_nested_raises_TypeError:
  "coerce sample_env
     (Map (Some (List (Some (Number int_conversion VNone VNone VUndefined)) (Some '','') VUndefined))
        (Some dict_container) VUndefined)
     (VDict [(''a'', VStr ''1,2,3'')]) (Some [(''parent'', VInstance Point [])]) = Inl TypeError
   \<and> coerce sample_env
     (Map (Some (List (Some (Number int_conversion VNone VNone VUndefined)) (Some '','') VUndefined))
        (Some dict_container) VUndefined)
     (VDict [(''a'', VList [VInt 1, VInt 2, VInt 3])]) (Some [(''parent'', VInstance Point [])]) = Inl TypeError
   \<and> coerce sample_env
     (Map (Some (List (Some (Number int_conversion VNone VNone VUndefined)) (Some '','') VUndefined))
        (Some dict_container) VUndefined)
     (VDict [(''a'', VDict [(''p'', VInt 1)])]) (Some [(''parent'', VInstance Point [])]) = Inl TypeError
   \<and> coerce sample_env
     (List (Some (List (Some (Number int_conversion VNone VNone VUndefined)) (Some '','') VUndefined))
        (Some '','') VUndefined)
     (VList [VStr ''1,2,3'']) (Some [(''parent'', VInstance Point [])]) = Inl TypeError
   \<and> coerce sample_env
     (List (Some (Number int_conversion VNone VNone VUndefined)) (Some '','') VUndefined)
     (VStr ''1,2,3'') (Some [(''key'', VStr ''a''), (''parent'', VInstance Point [])]) = Inl TypeError"
  by (simp add: dict_with_key_def List_sequence_def str_split_def split_from.simps)

section \<open>Dumping a constructed record\<close>







lemma flat_list_Cons:
  "flat_list ((n, a) # rest) = (if is_Include a then flat_fields (acls_of a) else [(n, a)]) @ flat_list rest"
  by (cases a) simp_all














lemma flat_fields_plain:
  "\<forall>(n, a) \<in> set flds. \<not> is_Include a \<Longrightarrow> flat_fields (Class name flds) = flds"
  by (induction flds) (auto simp: flat_list_Cons)

text \<open>
  \<open>Map.dump\<close> keeps the keys in the order of the value's items.
\<close>

lemma Map_dump_keeps_order:
  "dump env (Map (Some (Attribute d)) cont d') (VReadonlyMapping [(''a'', VInt 1), (''b'', VInt 2)])
   = Inr (VDict [(''a'', VInt 1), (''b'', VInt 2)])"
  by simp




end
